theory Spec2Isabelle
  imports Complex_Main
begin

section \<open>The synthetic user table\<close>

text \<open>
  The script builds a pandas table of \<open>n_users\<close> rows. The six attribute columns are
  filled by draws of numpy's random generator; they are the input of the model. A table
  is kept column-wise, as pandas keeps it: every derived column is a list of the same
  length as the list of attribute rows.
\<close>

record profile =
  user_id :: int
  signup_date :: int
  user_type :: string
  subscription_tier :: string
  num_interviews :: int
  avg_score :: real

definition study_end :: real where
  "study_end = 120"

text \<open>\<^verbatim>\<open>df[col] = v\<close>: a new column holding the scalar in every row.\<close>

definition assign_scalar :: "'a list \<Rightarrow> real \<Rightarrow> real list" where
  "assign_scalar df v = map (\<lambda>_. v) df"

text \<open>\<^verbatim>\<open>df.loc[mask, col] *= k\<close>: the rows selected by the mask are scaled, the others kept.\<close>

definition loc_mul :: "bool list \<Rightarrow> real list \<Rightarrow> real \<Rightarrow> real list" where
  "loc_mul sel col k = map (\<lambda>(m, h). if m then h * k else h) (zip sel col)"

text \<open>Lines 45 to 51: the hazard column. Floats are read as real numbers throughout.\<close>

definition baseline_hazard_col :: "profile list \<Rightarrow> real list" where
  "baseline_hazard_col df =
     (let h0 = assign_scalar df 0.015;
          h1 = loc_mul (map (\<lambda>u. subscription_tier u = ''premium'') df) h0 0.43;
          h2 = loc_mul (map (\<lambda>u. 5 \<le> num_interviews u) df) h1 0.32
      in h2)"

text \<open>
  \<^verbatim>\<open>np.random.exponential(scale)\<close> with a column of scales draws one value per row, in
  row order, from the generator. The sampler belongs to numpy; it is a parameter
  \<open>ex\<close> taking a scale and the generator state to the drawn value and the next state.
\<close>

fun draw_each :: "(real \<Rightarrow> 'g \<Rightarrow> real \<times> 'g) \<Rightarrow> real list \<Rightarrow> 'g \<Rightarrow> real list \<times> 'g" where
  "draw_each ex [] g = ([], g)"
| "draw_each ex (s # ss) g =
     (case ex s g of (x, g') \<Rightarrow>
        (case draw_each ex ss g' of (xs, g'') \<Rightarrow> (x # xs, g'')))"

text \<open>The argument of the sampler at line 54: \<^verbatim>\<open>1 / users_retention['baseline_hazard']\<close>.\<close>

definition scale_col :: "real list \<Rightarrow> real list" where
  "scale_col hazards = map (\<lambda>h. 1 / h) hazards"

record frame =
  profiles :: "profile list"
  baseline_hazard :: "real list"
  time_to_churn :: "real list"
  churned :: "int list"
  time_observed :: "real list"

text \<open>
  Lines 45 to 59: the derived columns. \<open>df\<close> is the table of attributes of lines 34 to
  41 and \<open>g\<close> the state of the generator after they were drawn.
\<close>

definition generate :: "(real \<Rightarrow> 'g \<Rightarrow> real \<times> 'g) \<Rightarrow> 'g \<Rightarrow> profile list \<Rightarrow> frame \<times> 'g" where
  "generate ex g df =
     (let hz = baseline_hazard_col df;
          (ttc, g') = draw_each ex (scale_col hz) g
      in (\<lparr> profiles = df,
            baseline_hazard = hz,
            time_to_churn = ttc,
            churned = map (\<lambda>t. if t \<le> study_end then 1 else 0) ttc,
            time_observed = map (\<lambda>t. min t study_end) ttc \<rparr>, g'))"

text \<open>The generator state in front of the draw for row \<open>i\<close>.\<close>

definition state_before :: "(real \<Rightarrow> 'g \<Rightarrow> real \<times> 'g) \<Rightarrow> 'g \<Rightarrow> real list \<Rightarrow> nat \<Rightarrow> 'g" where
  "state_before ex g scales i = snd (draw_each ex (take i scales) g)"

section \<open>The survival estimator\<close>

text \<open>
  The script hands durations and event indicators to \<^verbatim>\<open>KaplanMeierFitter\<close> of the
  lifelines library, whose code is not part of the repository. The estimator below is
  the standard product-limit estimator that the specification names: over the distinct
  observed durations \<open>t\<^sub>i\<close> up to \<open>t\<close>, the product of \<open>1 - d\<^sub>i / n\<^sub>i\<close>, with
  \<open>d\<^sub>i\<close> the events at \<open>t\<^sub>i\<close> and \<open>n\<^sub>i\<close> the records still at risk at \<open>t\<^sub>i\<close>.
  An observation is a duration with the flag "the event was observed".
\<close>

type_synonym observation = "real \<times> bool"

text \<open>Modelled from the spec: the number of records at risk at a time (lifelines' event table).\<close>

definition at_risk :: "observation list \<Rightarrow> real \<Rightarrow> nat" where
  "at_risk obs t = length (filter (\<lambda>(d, e). t \<le> d) obs)"

text \<open>Modelled from the spec: the number of events observed at a time (lifelines' event table).\<close>

definition observed :: "observation list \<Rightarrow> real \<Rightarrow> nat" where
  "observed obs t = length (filter (\<lambda>(d, e). d = t \<and> e) obs)"

text \<open>Modelled from the spec: the distinct observed durations in increasing order.\<close>

definition timeline :: "observation list \<Rightarrow> real list" where
  "timeline obs = sort (remdups (map fst obs))"

text \<open>Modelled from the spec: one factor of the product-limit estimator.\<close>

definition km_factor :: "observation list \<Rightarrow> real \<Rightarrow> real" where
  "km_factor obs t = 1 - real (observed obs t) / real (at_risk obs t)"

text \<open>
  Modelled from the spec: \<^verbatim>\<open>KaplanMeierFitter.fit\<close> followed by
  \<^verbatim>\<open>survival_function_at_times\<close>, the product-limit estimate of the survival
  probability at a time.
\<close>

definition survival_function_at_times :: "observation list \<Rightarrow> real \<Rightarrow> real" where
  "survival_function_at_times obs t =
     prod_list (map (km_factor obs) (filter (\<lambda>ti. ti \<le> t) (timeline obs)))"

text \<open>A Python float that is a number or \<^verbatim>\<open>inf\<close>.\<close>

datatype pyfloat = Fin real | PosInf

text \<open>
  Modelled from the spec: \<^verbatim>\<open>median_survival_time_\<close>, the first time at which the
  survival estimate has come down to one half, infinite when it never does.
\<close>

definition median_survival_time :: "observation list \<Rightarrow> pyfloat" where
  "median_survival_time obs =
     (case filter (\<lambda>t. survival_function_at_times obs t \<le> 1 / 2) (timeline obs) of
        [] \<Rightarrow> PosInf
      | t # _ \<Rightarrow> Fin t)"

section \<open>The report by subscription tier\<close>

text \<open>
  A printed line is a list of pieces: literal text, or a float in the format
  \<^verbatim>\<open>:.1f\<close>. \<^verbatim>\<open>print(f"\\n...")\<close> gives an empty line and then the text.
\<close>

datatype piece = Lit string | Fixed1 pyfloat

type_synonym line = "piece list"

text \<open>
  \<^verbatim>\<open>users_retention[users_retention['subscription_tier'] == tier]\<close> and its columns
  \<^verbatim>\<open>time_observed\<close> and \<^verbatim>\<open>churned\<close>, as the estimator receives them.
\<close>

definition tier_users :: "frame \<Rightarrow> string \<Rightarrow> observation list" where
  "tier_users F tier =
     map (\<lambda>(u, t, c). (t, c \<noteq> 0))
       (filter (\<lambda>(u, t, c). subscription_tier u = tier)
          (zip (profiles F) (zip (time_observed F) (churned F))))"

text \<open>Lines 101 to 103 and 105 to 107: the same three prints for either tier.\<close>

definition tier_lines :: "string \<Rightarrow> observation list \<Rightarrow> line list" where
  "tier_lines title kmf =
     [[], [Lit title],
      [Lit ''  Median survival: '', Fixed1 (median_survival_time kmf), Lit '' days''],
      [Lit ''  90-day retention: '',
       Fixed1 (Fin (survival_function_at_times kmf 90 * 100)), Lit ''%'']]"

definition tier_report :: "frame \<Rightarrow> line list" where
  "tier_report F =
     (let free_users = tier_users F ''free'';
          premium_users = tier_users F ''premium''
      in tier_lines ''Free users:'' free_users @ tier_lines ''Premium users:'' premium_users)"

section \<open>The regression step\<close>

text \<open>
  \<^verbatim>\<open>CoxPHFitter.fit\<close> belongs to lifelines. A call of it either raises an exception or
  returns the fitted model, and may issue warnings on the way; the library signals a fit
  that did not converge in either way (\<^verbatim>\<open>ConvergenceError\<close>,
  \<^verbatim>\<open>ConvergenceWarning\<close>). The outcome of the call is the input of the model.
\<close>

datatype py_error = KeyError string | ConvergenceError string

datatype warning = ConvergenceWarning | OtherWarning string

record cox_model =
  params :: "string \<rightharpoonup> real"
  confidence_intervals :: "string \<rightharpoonup> real \<times> real"

datatype fit_outcome = Raised py_error | Returned cox_model "warning list"

text \<open>Line 13, \<^verbatim>\<open>warnings.filterwarnings('ignore')\<close>: no warning is shown.\<close>

definition filterwarnings_ignore :: "warning list \<Rightarrow> warning list" where
  "filterwarnings_ignore ws = []"

text \<open>Indexing a pandas series or table by a label raises \<^verbatim>\<open>KeyError\<close> when it is absent.\<close>

definition loc :: "(string \<rightharpoonup> 'a) \<Rightarrow> string \<Rightarrow> py_error + 'a" where
  "loc m k = (case m k of None \<Rightarrow> Inl (KeyError k) | Some v \<Rightarrow> Inr v)"

record findings =
  hr_premium :: real
  hr_premium_lower :: real
  hr_premium_upper :: real
  hr_interviews :: real
  hr_interviews_lower :: real
  hr_interviews_upper :: real

text \<open>Lines 177 to 184: the hazard ratios and interval ends that the script prints.\<close>

definition key_findings :: "cox_model \<Rightarrow> py_error + findings" where
  "key_findings cph =
     (case loc (params cph) ''subscription_tier_premium'' of Inl e \<Rightarrow> Inl e | Inr b1 \<Rightarrow>
      case loc (params cph) ''num_interviews'' of Inl e \<Rightarrow> Inl e | Inr b2 \<Rightarrow>
      case loc (confidence_intervals cph) ''subscription_tier_premium'' of Inl e \<Rightarrow> Inl e | Inr (l1, u1) \<Rightarrow>
      case loc (confidence_intervals cph) ''num_interviews'' of Inl e \<Rightarrow> Inl e | Inr (l2, u2) \<Rightarrow>
        Inr \<lparr> hr_premium = exp b1, hr_premium_lower = exp l1, hr_premium_upper = exp u1,
              hr_interviews = exp b2, hr_interviews_lower = exp l2, hr_interviews_upper = exp u2 \<rparr>)"

text \<open>
  Line 174 prints \<^verbatim>\<open>cph.summary\<close>, a table that lifelines computes with one row per
  covariate of the fitted model. Its code is not part of the repository. A row holds the
  columns \<^verbatim>\<open>coef\<close>, \<^verbatim>\<open>exp(coef)\<close>, the interval of the coefficient and the
  interval of \<^verbatim>\<open>exp(coef)\<close>.
\<close>

record summary_row =
  coef :: real
  exp_coef :: real
  coef_lower :: real
  coef_upper :: real
  exp_coef_lower :: real
  exp_coef_upper :: real

text \<open>
  Modelled from the spec: the table \<^verbatim>\<open>cph.summary\<close> of lifelines, which reports for each
  covariate the coefficient estimate, its confidence interval and the derived hazard
  ratios (exp of coefficient).
\<close>

definition summary :: "cox_model \<Rightarrow> string \<rightharpoonup> summary_row" where
  "summary cph c =
     (case params cph c of
        None \<Rightarrow> None
      | Some b \<Rightarrow>
          (case confidence_intervals cph c of
             None \<Rightarrow> None
           | Some (l, u) \<Rightarrow>
               Some \<lparr> coef = b, exp_coef = exp b, coef_lower = l, coef_upper = u,
                      exp_coef_lower = exp l, exp_coef_upper = exp u \<rparr>))"

text \<open>
  Lines 170 to 184: the fit, then the key findings. The result is the exception that
  ends the program, or the findings together with the warnings the user gets to see.
\<close>

definition regression_step :: "fit_outcome \<Rightarrow> py_error + findings \<times> warning list" where
  "regression_step fitted =
     (case fitted of
        Raised e \<Rightarrow> Inl e
      | Returned cph ws \<Rightarrow>
          (case key_findings cph of
             Inl e \<Rightarrow> Inl e
           | Inr r \<Rightarrow> Inr (r, filterwarnings_ignore ws)))"

text \<open>What the library says about the fit: it converged when it returned without the warning.\<close>

definition converged :: "fit_outcome \<Rightarrow> bool" where
  "converged fitted =
     (case fitted of
        Raised e \<Rightarrow> False
      | Returned cph ws \<Rightarrow> ConvergenceWarning \<notin> set ws)"

section \<open>Example inputs\<close>

text \<open>A small table and a sampler (scale times a quarter of a counter) to run the model on.\<close>

definition example_profiles :: "profile list" where
  "example_profiles =
     [\<lparr> user_id = 1, signup_date = 0, user_type = ''job_seeker'',
         subscription_tier = ''free'', num_interviews = 3, avg_score = 70 \<rparr>,
      \<lparr> user_id = 2, signup_date = 12, user_type = ''recruiter'',
         subscription_tier = ''premium'', num_interviews = 7, avg_score = 81 \<rparr>,
      \<lparr> user_id = 3, signup_date = 30, user_type = ''interviewer'',
         subscription_tier = ''premium'', num_interviews = 2, avg_score = 64 \<rparr>,
      \<lparr> user_id = 4, signup_date = 5, user_type = ''job_seeker'',
         subscription_tier = ''free'', num_interviews = 5, avg_score = 90 \<rparr>]"

definition example_sampler :: "real \<Rightarrow> nat \<Rightarrow> real \<times> nat" where
  "example_sampler s n = (s * real n / 4, Suc n)"

text \<open>A sampler whose draws all fall behind the study horizon.\<close>

definition late_sampler :: "real \<Rightarrow> nat \<Rightarrow> real \<times> nat" where
  "late_sampler s n = (s * 10, Suc n)"

definition example_observations :: "observation list" where
  "example_observations = [(5, True), (10, False), (10, True), (20, True)]"

definition example_model :: cox_model where
  "example_model =
     \<lparr> params = [''subscription_tier_premium'' \<mapsto> - 84 / 100, ''num_interviews'' \<mapsto> 0],
       confidence_intervals =
         [''subscription_tier_premium'' \<mapsto> (- 1, - 68 / 100), ''num_interviews'' \<mapsto> (- 1 / 10, 1 / 10)] \<rparr>"

definition example_findings :: findings where
  "example_findings =
     \<lparr> hr_premium = exp (- 84 / 100), hr_premium_lower = exp (- 1),
       hr_premium_upper = exp (- 68 / 100), hr_interviews = 1,
       hr_interviews_lower = exp (- 1 / 10), hr_interviews_upper = exp (1 / 10) \<rparr>"

text \<open>
  A fitted model over the five covariates that lines 163 to 167 produce from the
  generated table.
\<close>

definition example_fit :: cox_model where
  "example_fit =
     \<lparr> params =
         [''num_interviews'' \<mapsto> - 1 / 5, ''avg_score'' \<mapsto> 0,
          ''subscription_tier_premium'' \<mapsto> - 84 / 100,
          ''user_type_job_seeker'' \<mapsto> 1 / 20, ''user_type_recruiter'' \<mapsto> - 1 / 10],
       confidence_intervals =
         [''num_interviews'' \<mapsto> (- 1 / 4, - 3 / 20), ''avg_score'' \<mapsto> (- 1 / 100, 1 / 100),
          ''subscription_tier_premium'' \<mapsto> (- 1, - 68 / 100),
          ''user_type_job_seeker'' \<mapsto> (- 1 / 10, 1 / 5),
          ''user_type_recruiter'' \<mapsto> (- 3 / 10, 1 / 10)] \<rparr>"

section \<open>Properties of the generated table\<close>

lemma fst_draw_each_Cons:
  "fst (draw_each ex (s # ss) g) = fst (ex s g) # fst (draw_each ex ss (snd (ex s g)))"
  by (simp add: case_prod_beta)

lemma snd_draw_each_Cons:
  "snd (draw_each ex (s # ss) g) = snd (draw_each ex ss (snd (ex s g)))"
  by (simp add: case_prod_beta)

lemma length_draw_each: "length (fst (draw_each ex ss g)) = length ss"
  by (induction ss arbitrary: g) (simp_all add: fst_draw_each_Cons del: draw_each.simps(2))

lemma length_baseline_hazard_col: "length (baseline_hazard_col df) = length df"
  by (simp add: baseline_hazard_col_def loc_mul_def assign_scalar_def)

lemma nth_baseline_hazard_col:
  assumes "i < length df"
  shows "baseline_hazard_col df ! i =
           0.015 * (if subscription_tier (df ! i) = ''premium'' then 0.43 else 1)
                 * (if 5 \<le> num_interviews (df ! i) then 0.32 else 1)"
  using assms by (simp add: baseline_hazard_col_def loc_mul_def assign_scalar_def)

lemma baseline_hazard_col_pos:
  assumes "i < length df"
  shows "0 < baseline_hazard_col df ! i"
  using assms by (simp add: nth_baseline_hazard_col)

lemma nth_draw_each:
  "i < length ss \<Longrightarrow>
     fst (draw_each ex ss g) ! i = fst (ex (ss ! i) (snd (draw_each ex (take i ss) g)))"
proof (induction ss arbitrary: g i)
  case Nil
  then show ?case by simp
next
  case (Cons s ss)
  show ?case
  proof (cases i)
    case 0
    then show ?thesis by (simp add: fst_draw_each_Cons del: draw_each.simps(2))
  next
    case (Suc j)
    with Cons.prems have j: "j < length ss" by simp
    from Cons.IH [OF j, of "snd (ex s g)"] Suc show ?thesis
      by (simp add: fst_draw_each_Cons snd_draw_each_Cons del: draw_each.simps(2))
  qed
qed

lemma frame_columns:
  "profiles (fst (generate ex g df)) = df"
  "baseline_hazard (fst (generate ex g df)) = baseline_hazard_col df"
  "time_to_churn (fst (generate ex g df)) = fst (draw_each ex (scale_col (baseline_hazard_col df)) g)"
  "churned (fst (generate ex g df)) =
     map (\<lambda>t. if t \<le> study_end then 1 else 0) (time_to_churn (fst (generate ex g df)))"
  "time_observed (fst (generate ex g df)) =
     map (\<lambda>t. min t study_end) (time_to_churn (fst (generate ex g df)))"
  by (simp_all add: generate_def Let_def split: prod.splits)

lemma frame_lengths:
  "length (baseline_hazard (fst (generate ex g df))) = length df"
  "length (time_to_churn (fst (generate ex g df))) = length df"
  "length (churned (fst (generate ex g df))) = length df"
  "length (time_observed (fst (generate ex g df))) = length df"
  by (simp_all add: frame_columns length_draw_each length_baseline_hazard_col scale_col_def)

lemma example_hazards:
  "baseline_hazard_col example_profiles = [15 / 1000, 2064 / 1000000, 645 / 100000, 48 / 10000]"
  by (simp add: example_profiles_def baseline_hazard_col_def loc_mul_def assign_scalar_def)

lemma example_draws:
  "fst (draw_each example_sampler (scale_col [15 / 1000, 2064 / 1000000, 645 / 100000, 48 / 10000]) (Suc 0))
     = [50 / 3, 31250 / 129, 5000 / 43, 625 / 3]"
  by (simp add: scale_col_def example_sampler_def)

lemma example_time_to_churn:
  "time_to_churn (fst (generate example_sampler (Suc 0) example_profiles))
     = [50 / 3, 31250 / 129, 5000 / 43, 625 / 3]"
  by (simp only: frame_columns example_hazards example_draws)

text \<open>
  Claim C1. In every row of the generated table the observed duration is the minimum of
  the simulated time to churn and 120, the churn indicator is 1 exactly when the
  simulated time to churn is at most 120 (and 0 otherwise), and so the observed duration
  never exceeds the study horizon.
\<close>

theorem observed_duration_censored:
  assumes "i < length df"
  shows "time_observed (fst (generate ex g df)) ! i
           = min (time_to_churn (fst (generate ex g df)) ! i) 120
       \<and> (churned (fst (generate ex g df)) ! i = 1
            \<longleftrightarrow> time_to_churn (fst (generate ex g df)) ! i \<le> 120)
       \<and> churned (fst (generate ex g df)) ! i \<in> {0, 1}
       \<and> time_observed (fst (generate ex g df)) ! i \<le> study_end
       \<and> study_end = 120"
proof -
  have n: "i < length (time_to_churn (fst (generate ex g df)))"
    using assms by (simp add: frame_lengths)
  show ?thesis
    using n by (simp add: frame_columns(4,5) study_end_def)
qed

theorem observed_duration_censored_witness:
  "time_observed (fst (generate example_sampler (Suc 0) example_profiles)) ! 1 = 120
   \<and> churned (fst (generate example_sampler (Suc 0) example_profiles)) ! 1 = 0
   \<and> time_observed (fst (generate example_sampler (Suc 0) example_profiles)) ! 2 = 5000 / 43
   \<and> churned (fst (generate example_sampler (Suc 0) example_profiles)) ! 2 = 1"
proof -
  have l1: "1 < length example_profiles" and l2: "2 < length example_profiles"
    by (simp_all add: example_profiles_def)
  from observed_duration_censored [OF l1, of example_sampler "Suc 0"]
       observed_duration_censored [OF l2, of example_sampler "Suc 0"]
  show ?thesis
    by (auto simp add: example_time_to_churn)
qed

text \<open>
  Claim C2. In every row the hazard starts at 0.015, is multiplied by 0.43 when the
  subscription tier is premium and, independently and on top of that, by 0.32 when the
  interview count is at least 5; a row in neither category keeps the hazard 0.015.
\<close>

theorem baseline_hazard_scaling:
  assumes "i < length df"
  shows "baseline_hazard (fst (generate ex g df)) ! i
           = 0.015 * (if subscription_tier (df ! i) = ''premium'' then 0.43 else 1)
                   * (if 5 \<le> num_interviews (df ! i) then 0.32 else 1)
       \<and> (subscription_tier (df ! i) \<noteq> ''premium'' \<and> num_interviews (df ! i) < 5
            \<longrightarrow> baseline_hazard (fst (generate ex g df)) ! i = 0.015)"
  using assms by (simp add: frame_columns(2) nth_baseline_hazard_col)

theorem baseline_hazard_scaling_witness:
  "baseline_hazard (fst (generate example_sampler (Suc 0) example_profiles)) ! 0 = 0.015
   \<and> baseline_hazard (fst (generate example_sampler (Suc 0) example_profiles)) ! 1
         = 0.015 * 0.43 * 0.32
   \<and> baseline_hazard (fst (generate example_sampler (Suc 0) example_profiles)) ! 2
         = 0.015 * 0.43
   \<and> baseline_hazard (fst (generate example_sampler (Suc 0) example_profiles)) ! 3
         = 0.015 * 0.32"
proof -
  have l: "0 < length example_profiles" "1 < length example_profiles"
          "2 < length example_profiles" "3 < length example_profiles"
    by (simp_all add: example_profiles_def)
  from baseline_hazard_scaling [OF l(1), of example_sampler "Suc 0"]
       baseline_hazard_scaling [OF l(2), of example_sampler "Suc 0"]
       baseline_hazard_scaling [OF l(3), of example_sampler "Suc 0"]
       baseline_hazard_scaling [OF l(4), of example_sampler "Suc 0"]
  show ?thesis
    by (simp add: example_profiles_def)
qed

text \<open>
  Claim C3. For every row the scale handed to the exponential sampler is 1 divided by the
  row's hazard, so the rate of the draw (1 divided by the scale) is the row's hazard, and
  the row's simulated time to churn is the sampler's value at that scale, drawn in the
  generator state left by the rows before it.
\<close>

theorem time_to_churn_rate:
  assumes "i < length df"
  shows "scale_col (baseline_hazard (fst (generate ex g df))) ! i
           = 1 / baseline_hazard (fst (generate ex g df)) ! i
       \<and> 1 / (scale_col (baseline_hazard (fst (generate ex g df))) ! i)
           = baseline_hazard (fst (generate ex g df)) ! i
       \<and> time_to_churn (fst (generate ex g df)) ! i
           = fst (ex (1 / baseline_hazard (fst (generate ex g df)) ! i)
                    (state_before ex g (scale_col (baseline_hazard (fst (generate ex g df)))) i))"
proof -
  let ?hz = "baseline_hazard_col df"
  have n: "i < length ?hz"
    using assms by (simp add: length_baseline_hazard_col)
  have sc: "scale_col ?hz ! i = 1 / ?hz ! i"
    using n by (simp add: scale_col_def)
  have n': "i < length (scale_col ?hz)"
    using n by (simp add: scale_col_def)
  have "fst (draw_each ex (scale_col ?hz) g) ! i
          = fst (ex (scale_col ?hz ! i) (snd (draw_each ex (take i (scale_col ?hz)) g)))"
    using n' by (rule nth_draw_each)
  then show ?thesis
    by (simp add: frame_columns(2,3) sc state_before_def)
qed

theorem time_to_churn_rate_witness:
  "scale_col (baseline_hazard (fst (generate example_sampler (Suc 0) example_profiles))) ! 2
     = 100000 / 645
   \<and> time_to_churn (fst (generate example_sampler (Suc 0) example_profiles)) ! 2
     = fst (example_sampler (100000 / 645) 3)"
proof -
  have l: "2 < length example_profiles"
    by (simp add: example_profiles_def)
  have st: "state_before example_sampler (Suc 0)
              (scale_col (baseline_hazard_col example_profiles)) 2 = 3"
    by (simp add: example_hazards state_before_def scale_col_def example_sampler_def
          numeral_2_eq_2)
  have sc: "scale_col (baseline_hazard_col example_profiles) ! 2 = 100000 / 645"
    by (simp add: example_hazards scale_col_def)
  have hz: "baseline_hazard_col example_profiles ! 2 = 645 / 100000"
    by (simp add: example_hazards)
  from time_to_churn_rate [OF l, of example_sampler "Suc 0"]
  show ?thesis
    by (simp add: frame_columns(2) st sc hz)
qed

text \<open>
  Claim C10. In every row the hazard is one of 0.015, 0.015 * 0.43, 0.015 * 0.32 and
  0.015 * 0.43 * 0.32, hence strictly positive, so the scale 1 / hazard divides by no
  zero and is itself positive; with a sampler that returns no negative value at a
  positive scale, every simulated time to churn is at least 0.
\<close>

theorem baseline_hazard_positive:
  assumes "i < length df"
  shows "baseline_hazard (fst (generate ex g df)) ! i
           \<in> {0.015, 0.015 * 0.43, 0.015 * 0.32, 0.015 * 0.43 * 0.32}
       \<and> 0 < baseline_hazard (fst (generate ex g df)) ! i
       \<and> 0 < scale_col (baseline_hazard (fst (generate ex g df))) ! i
       \<and> ((\<forall>s g'. 0 < s \<longrightarrow> 0 \<le> fst (ex s g'))
            \<longrightarrow> 0 \<le> time_to_churn (fst (generate ex g df)) ! i)"
proof -
  let ?hz = "baseline_hazard_col df"
  have n: "i < length ?hz"
    using assms by (simp add: length_baseline_hazard_col)
  have mem: "?hz ! i \<in> {0.015, 0.015 * 0.43, 0.015 * 0.32, 0.015 * 0.43 * 0.32}"
    using assms by (simp add: nth_baseline_hazard_col)
  have pos: "0 < ?hz ! i"
    using assms by (rule baseline_hazard_col_pos)
  have sc: "scale_col ?hz ! i = 1 / ?hz ! i"
    using n by (simp add: scale_col_def)
  have scpos: "0 < scale_col ?hz ! i"
    using pos by (simp add: sc)
  have n': "i < length (scale_col ?hz)"
    using n by (simp add: scale_col_def)
  have draw: "fst (draw_each ex (scale_col ?hz) g) ! i
          = fst (ex (scale_col ?hz ! i) (snd (draw_each ex (take i (scale_col ?hz)) g)))"
    using n' by (rule nth_draw_each)
  have nonneg: "0 \<le> fst (draw_each ex (scale_col ?hz) g) ! i"
    if "\<forall>s g'. 0 < s \<longrightarrow> 0 \<le> fst (ex s g')"
    using that scpos by (simp add: draw)
  show ?thesis
    using mem pos scpos nonneg by (simp add: frame_columns(2,3))
qed

theorem baseline_hazard_positive_witness:
  "0 < baseline_hazard (fst (generate example_sampler (Suc 0) example_profiles)) ! 3
   \<and> 0 < scale_col (baseline_hazard (fst (generate example_sampler (Suc 0) example_profiles))) ! 3
   \<and> 0 \<le> time_to_churn (fst (generate example_sampler (Suc 0) example_profiles)) ! 3"
proof -
  have l: "3 < length example_profiles"
    by (simp add: example_profiles_def)
  have c: "\<forall>s g'. 0 < s \<longrightarrow> 0 \<le> fst (example_sampler s g')"
    by (simp add: example_sampler_def)
  from baseline_hazard_positive [OF l, of example_sampler "Suc 0"] c
  show ?thesis
    by blast
qed

section \<open>Properties of the survival estimator\<close>

lemma observed_le_at_risk: "observed obs t \<le> at_risk obs t"
  unfolding observed_def at_risk_def
  by (induction obs) auto

lemma km_factor_bounds: "0 \<le> km_factor obs t \<and> km_factor obs t \<le> 1"
proof -
  have le: "real (observed obs t) \<le> real (at_risk obs t)"
    using observed_le_at_risk [of obs t] by simp
  have "real (observed obs t) / real (at_risk obs t) \<le> 1"
    using le by (cases "at_risk obs t = 0") simp_all
  moreover have "0 \<le> real (observed obs t) / real (at_risk obs t)"
    by simp
  ultimately show ?thesis
    by (simp add: km_factor_def)
qed

lemma prod_list_unit_interval:
  fixes f :: "'a \<Rightarrow> real"
  assumes "\<And>x. 0 \<le> f x \<and> f x \<le> 1"
  shows "0 \<le> prod_list (map f xs) \<and> prod_list (map f xs) \<le> 1"
proof (induction xs)
  case Nil
  show ?case by simp
next
  case (Cons x xs)
  have "f x * prod_list (map f xs) \<le> 1 * 1"
    using assms [of x] Cons.IH by (intro mult_mono) simp_all
  then show ?case
    using assms [of x] Cons.IH by simp
qed

lemma prod_list_filter_antimono:
  fixes f :: "'a \<Rightarrow> real"
  assumes unit: "\<And>x. 0 \<le> f x \<and> f x \<le> 1"
      and sub: "\<And>x. P x \<Longrightarrow> Q x"
  shows "prod_list (map f (filter Q xs)) \<le> prod_list (map f (filter P xs))"
proof (induction xs)
  case Nil
  show ?case by simp
next
  case (Cons x xs)
  note nn = prod_list_unit_interval [of f, OF unit]
  show ?case
  proof (cases "P x")
    case True
    then have "Q x" by (rule sub)
    with True Cons.IH unit [of x] show ?thesis
      by (simp add: mult_left_mono)
  next
    case False
    show ?thesis
    proof (cases "Q x")
      case True
      have "f x * prod_list (map f (filter Q xs)) \<le> 1 * prod_list (map f (filter Q xs))"
        using unit [of x] nn [of "filter Q xs"] by (intro mult_right_mono) simp_all
      with Cons.IH True False show ?thesis by simp
    next
      case False
      with \<open>\<not> P x\<close> Cons.IH show ?thesis by simp
    qed
  qed
qed

lemma survival_antimono:
  assumes "s \<le> t"
  shows "survival_function_at_times obs t \<le> survival_function_at_times obs s"
  unfolding survival_function_at_times_def
  by (rule prod_list_filter_antimono) (use assms km_factor_bounds in auto)

lemma survival_bounds:
  "0 \<le> survival_function_at_times obs t \<and> survival_function_at_times obs t \<le> 1"
  unfolding survival_function_at_times_def
  by (rule prod_list_unit_interval) (rule km_factor_bounds)

lemma prod_list_all_one:
  fixes f :: "'a \<Rightarrow> real"
  assumes "\<And>x. x \<in> set xs \<Longrightarrow> f x = 1"
  shows "prod_list (map f xs) = 1"
  using assms by (induction xs) simp_all

lemma observed_zero:
  assumes "\<forall>(d, e) \<in> set obs. e \<longrightarrow> d \<noteq> t"
  shows "observed obs t = 0"
  using assms unfolding observed_def by (induction obs) auto

lemma survival_at_zero:
  assumes "\<forall>(d, e) \<in> set obs. e \<longrightarrow> 0 < d"
  shows "survival_function_at_times obs 0 = 1"
  unfolding survival_function_at_times_def
proof (rule prod_list_all_one)
  fix ti assume "ti \<in> set (filter (\<lambda>ti. ti \<le> 0) (timeline obs))"
  then have "ti \<le> 0" by simp
  have "observed obs ti = 0"
    by (rule observed_zero) (use assms \<open>ti \<le> 0\<close> in fastforce)
  then show "km_factor obs ti = 1" by (simp add: km_factor_def)
qed

lemma survival_no_events:
  assumes "\<forall>(d, e) \<in> set obs. \<not> e"
  shows "survival_function_at_times obs t = 1"
  unfolding survival_function_at_times_def
proof (rule prod_list_all_one)
  fix ti
  have "observed obs ti = 0"
    by (rule observed_zero) (use assms in auto)
  then show "km_factor obs ti = 1" by (simp add: km_factor_def)
qed

lemma median_no_events:
  assumes "\<forall>(d, e) \<in> set obs. \<not> e"
  shows "median_survival_time obs = PosInf"
  by (simp add: median_survival_time_def survival_no_events [OF assms])

lemma example_survival:
  "survival_function_at_times example_observations 0 = 1"
  "survival_function_at_times example_observations 5 = 3 / 4"
  "survival_function_at_times example_observations 10 = 1 / 2"
  by (simp_all add: example_observations_def survival_function_at_times_def timeline_def
        km_factor_def observed_def at_risk_def)

text \<open>
  Claim C4, as stated, fails at time 0: two records, one with the event at duration 0,
  give the estimate 1 / 2 there, not 1.
\<close>

theorem survival_at_zero_counterexample:
  "survival_function_at_times [(0, True), (5, True)] 0 = 1 / 2
   \<and> survival_function_at_times [(0, True), (5, True)] 0 \<noteq> 1"
  by (simp add: survival_function_at_times_def timeline_def km_factor_def observed_def
        at_risk_def)

text \<open>
  Claim C4, amended. For every list of (duration, event) pairs the product-limit estimate
  does not increase with time and lies between 0 and 1 at every time (so at the
  checkpoints 30, 60, 90 and 120); it is 1 at time 0 when no event has a duration of 0
  or less.
\<close>

theorem product_limit_estimate:
  "(s \<le> t \<longrightarrow> survival_function_at_times obs t \<le> survival_function_at_times obs s)
   \<and> 0 \<le> survival_function_at_times obs t
   \<and> survival_function_at_times obs t \<le> 1
   \<and> ((\<forall>(d, e) \<in> set obs. e \<longrightarrow> 0 < d) \<longrightarrow> survival_function_at_times obs 0 = 1)"
  using survival_antimono [of s t obs] survival_bounds [of obs t] survival_at_zero [of obs]
  by blast

theorem product_limit_estimate_witness:
  "survival_function_at_times example_observations 10
     \<le> survival_function_at_times example_observations 5
   \<and> 0 \<le> survival_function_at_times example_observations 10
   \<and> survival_function_at_times example_observations 10 \<le> 1
   \<and> survival_function_at_times example_observations 0 = 1"
proof -
  have le: "(5::real) \<le> 10" by simp
  have ev: "\<forall>(d, e) \<in> set example_observations. e \<longrightarrow> 0 < d"
    by (simp add: example_observations_def)
  from product_limit_estimate [of 5 10 example_observations] le ev
  show ?thesis by blast
qed

section \<open>Properties of the tier report\<close>

lemma late_frame:
  "time_observed (fst (generate late_sampler 0 example_profiles)) = [120, 120, 120, 120]"
  "churned (fst (generate late_sampler 0 example_profiles)) = [0, 0, 0, 0]"
  "profiles (fst (generate late_sampler 0 example_profiles)) = example_profiles"
  by (simp_all add: frame_columns example_hazards scale_col_def late_sampler_def study_end_def)

lemma late_tier_users:
  "tier_users (fst (generate late_sampler 0 example_profiles)) ''free''
     = [(120, False), (120, False)]"
  "tier_users (fst (generate late_sampler 0 example_profiles)) ''premium''
     = [(120, False), (120, False)]"
  by (simp_all add: tier_users_def late_frame) (simp_all add: example_profiles_def)

text \<open>
  Claim C6, as stated, fails: in a table where no user churns before the study ends,
  both tiers have zero events, and the report is the ordinary one, with the median
  printed as \<^verbatim>\<open>inf\<close> and the 90-day retention as 100.0 percent.
\<close>

theorem zero_event_report_counterexample:
  "sum_list (churned (fst (generate late_sampler 0 example_profiles))) = 0
   \<and> tier_report (fst (generate late_sampler 0 example_profiles))
     = [[], [Lit ''Free users:''],
        [Lit ''  Median survival: '', Fixed1 PosInf, Lit '' days''],
        [Lit ''  90-day retention: '', Fixed1 (Fin 100), Lit ''%''],
        [], [Lit ''Premium users:''],
        [Lit ''  Median survival: '', Fixed1 PosInf, Lit '' days''],
        [Lit ''  90-day retention: '', Fixed1 (Fin 100), Lit ''%'']]"
  by (simp add: tier_report_def late_tier_users late_frame tier_lines_def
        median_survival_time_def survival_function_at_times_def timeline_def km_factor_def
        observed_def at_risk_def)

text \<open>
  Claim C6, amended. For a subgroup with at least one record and zero events the
  program prints the same three lines as for any other subgroup, holding the
  estimator's own values: an infinite median survival time and a 90-day retention of
  100 percent.
\<close>

theorem zero_event_tier_lines:
  assumes "kmf \<noteq> []" and "\<forall>(d, e) \<in> set kmf. \<not> e"
  shows "tier_lines title kmf
           = [[], [Lit title],
              [Lit ''  Median survival: '', Fixed1 PosInf, Lit '' days''],
              [Lit ''  90-day retention: '', Fixed1 (Fin 100), Lit ''%'']]"
  by (simp add: tier_lines_def median_no_events [OF assms(2)] survival_no_events [OF assms(2)])

theorem zero_event_tier_lines_witness:
  "tier_lines ''Free users:''
       (tier_users (fst (generate late_sampler 0 example_profiles)) ''free'')
     = [[], [Lit ''Free users:''],
        [Lit ''  Median survival: '', Fixed1 PosInf, Lit '' days''],
        [Lit ''  90-day retention: '', Fixed1 (Fin 100), Lit ''%'']]"
proof -
  let ?free = "tier_users (fst (generate late_sampler 0 example_profiles)) ''free''"
  have ne: "?free \<noteq> []"
    by (simp add: late_tier_users)
  have ze: "\<forall>(d, e) \<in> set ?free. \<not> e"
    by (simp add: late_tier_users)
  from zero_event_tier_lines [OF ne ze] show ?thesis .
qed

section \<open>Properties of the regression step\<close>

lemma key_findings_Inr:
  "key_findings cph = Inr r \<longleftrightarrow>
     (\<exists>b1 b2 l1 u1 l2 u2.
        params cph ''subscription_tier_premium'' = Some b1
      \<and> params cph ''num_interviews'' = Some b2
      \<and> confidence_intervals cph ''subscription_tier_premium'' = Some (l1, u1)
      \<and> confidence_intervals cph ''num_interviews'' = Some (l2, u2)
      \<and> r = \<lparr> hr_premium = exp b1, hr_premium_lower = exp l1, hr_premium_upper = exp u1,
               hr_interviews = exp b2, hr_interviews_lower = exp l2,
               hr_interviews_upper = exp u2 \<rparr>)"
  by (auto simp add: key_findings_def loc_def split: option.splits)

lemma example_key_findings: "key_findings example_model = Inr example_findings"
  by (simp add: key_findings_def loc_def example_model_def example_findings_def)

lemma summary_row_of:
  assumes "params cph c = Some b" and "confidence_intervals cph c = Some (l, u)"
  shows "summary cph c
           = Some \<lparr> coef = b, exp_coef = exp b, coef_lower = l, coef_upper = u,
                    exp_coef_lower = exp l, exp_coef_upper = exp u \<rparr>"
  using assms by (simp add: summary_def)

lemma summary_dom:
  "summary cph c \<noteq> None
     \<longleftrightarrow> params cph c \<noteq> None \<and> confidence_intervals cph c \<noteq> None"
  by (auto simp add: summary_def split: option.splits)

lemma key_findings_in_summary:
  assumes "key_findings cph = Inr r"
  shows "\<exists>rp ri.
           summary cph ''subscription_tier_premium'' = Some rp
         \<and> summary cph ''num_interviews'' = Some ri
         \<and> hr_premium r = exp_coef rp
         \<and> hr_premium_lower r = exp_coef_lower rp
         \<and> hr_premium_upper r = exp_coef_upper rp
         \<and> hr_interviews r = exp_coef ri
         \<and> hr_interviews_lower r = exp_coef_lower ri
         \<and> hr_interviews_upper r = exp_coef_upper ri"
proof -
  from assms obtain b1 b2 l1 u1 l2 u2 where
    p: "params cph ''subscription_tier_premium'' = Some b1"
       "params cph ''num_interviews'' = Some b2"
       "confidence_intervals cph ''subscription_tier_premium'' = Some (l1, u1)"
       "confidence_intervals cph ''num_interviews'' = Some (l2, u2)"
    and r: "r = \<lparr> hr_premium = exp b1, hr_premium_lower = exp l1, hr_premium_upper = exp u1,
               hr_interviews = exp b2, hr_interviews_lower = exp l2,
               hr_interviews_upper = exp u2 \<rparr>"
    unfolding key_findings_Inr by blast
  show ?thesis
    using summary_row_of [OF p(1) p(3)] summary_row_of [OF p(2) p(4)] r by simp
qed

text \<open>
  Claim C5. For every covariate of the fitted model, that is every label with a
  coefficient and a confidence interval, the summary table has a row whose hazard ratio
  is the exponential of the covariate's coefficient and whose interval ends are the
  exponentials of the bounds of the coefficient. The key findings exist exactly when
  the model has the premium tier and the interview count among its covariates; the
  hazard ratios and interval ends the script computes for them are then those
  exponentials too, and agree with the rows of the table.
\<close>

theorem hazard_ratio_is_exp:
  "(params cph c = Some b \<and> confidence_intervals cph c = Some (l, u)
      \<longrightarrow> (\<exists>row. summary cph c = Some row
             \<and> coef row = b \<and> exp_coef row = exp b
             \<and> coef_lower row = l \<and> exp_coef_lower row = exp l
             \<and> coef_upper row = u \<and> exp_coef_upper row = exp u))
   \<and> (key_findings cph = Inr r \<longleftrightarrow>
       (\<exists>b1 b2 l1 u1 l2 u2.
          params cph ''subscription_tier_premium'' = Some b1
        \<and> params cph ''num_interviews'' = Some b2
        \<and> confidence_intervals cph ''subscription_tier_premium'' = Some (l1, u1)
        \<and> confidence_intervals cph ''num_interviews'' = Some (l2, u2)
        \<and> hr_premium r = exp b1 \<and> hr_premium_lower r = exp l1 \<and> hr_premium_upper r = exp u1
        \<and> hr_interviews r = exp b2 \<and> hr_interviews_lower r = exp l2
        \<and> hr_interviews_upper r = exp u2))
   \<and> (key_findings cph = Inr r \<longrightarrow>
       (\<exists>rp ri.
          summary cph ''subscription_tier_premium'' = Some rp
        \<and> summary cph ''num_interviews'' = Some ri
        \<and> hr_premium r = exp_coef rp
        \<and> hr_premium_lower r = exp_coef_lower rp
        \<and> hr_premium_upper r = exp_coef_upper rp
        \<and> hr_interviews r = exp_coef ri
        \<and> hr_interviews_lower r = exp_coef_lower ri
        \<and> hr_interviews_upper r = exp_coef_upper ri))"
proof (intro conjI impI)
  assume "params cph c = Some b \<and> confidence_intervals cph c = Some (l, u)"
  then have "summary cph c
           = Some \<lparr> coef = b, exp_coef = exp b, coef_lower = l, coef_upper = u,
                    exp_coef_lower = exp l, exp_coef_upper = exp u \<rparr>"
    by (simp add: summary_row_of)
  then show "\<exists>row. summary cph c = Some row
             \<and> coef row = b \<and> exp_coef row = exp b
             \<and> coef_lower row = l \<and> exp_coef_lower row = exp l
             \<and> coef_upper row = u \<and> exp_coef_upper row = exp u"
    by simp
next
  show "key_findings cph = Inr r \<longleftrightarrow>
       (\<exists>b1 b2 l1 u1 l2 u2.
          params cph ''subscription_tier_premium'' = Some b1
        \<and> params cph ''num_interviews'' = Some b2
        \<and> confidence_intervals cph ''subscription_tier_premium'' = Some (l1, u1)
        \<and> confidence_intervals cph ''num_interviews'' = Some (l2, u2)
        \<and> hr_premium r = exp b1 \<and> hr_premium_lower r = exp l1 \<and> hr_premium_upper r = exp u1
        \<and> hr_interviews r = exp b2 \<and> hr_interviews_lower r = exp l2
        \<and> hr_interviews_upper r = exp u2)"
    by (auto simp add: key_findings_Inr)
next
  assume "key_findings cph = Inr r"
  then show "\<exists>rp ri.
          summary cph ''subscription_tier_premium'' = Some rp
        \<and> summary cph ''num_interviews'' = Some ri
        \<and> hr_premium r = exp_coef rp
        \<and> hr_premium_lower r = exp_coef_lower rp
        \<and> hr_premium_upper r = exp_coef_upper rp
        \<and> hr_interviews r = exp_coef ri
        \<and> hr_interviews_lower r = exp_coef_lower ri
        \<and> hr_interviews_upper r = exp_coef_upper ri"
    by (rule key_findings_in_summary)
qed

lemma example_fit_key_findings:
  "key_findings example_fit
     = Inr \<lparr> hr_premium = exp (- 84 / 100), hr_premium_lower = exp (- 1),
             hr_premium_upper = exp (- 68 / 100), hr_interviews = exp (- 1 / 5),
             hr_interviews_lower = exp (- 1 / 4), hr_interviews_upper = exp (- 3 / 20) \<rparr>"
  by (simp add: key_findings_def loc_def example_fit_def)

theorem hazard_ratio_is_exp_witness:
  "exp_coef (the (summary example_fit ''user_type_recruiter'')) = exp (- 1 / 10)
   \<and> exp_coef_lower (the (summary example_fit ''user_type_recruiter'')) = exp (- 3 / 10)
   \<and> exp_coef_upper (the (summary example_fit ''user_type_recruiter'')) = exp (1 / 10)
   \<and> exp_coef (the (summary example_fit ''avg_score'')) = exp 0
   \<and> exp_coef (the (summary example_fit ''user_type_job_seeker'')) = exp (1 / 20)
   \<and> exp_coef (the (summary example_fit ''subscription_tier_premium'')) = exp (- 84 / 100)
   \<and> exp_coef (the (summary example_fit ''num_interviews'')) = exp (- 1 / 5)
   \<and> key_findings example_fit
       = Inr \<lparr> hr_premium = exp (- 84 / 100), hr_premium_lower = exp (- 1),
               hr_premium_upper = exp (- 68 / 100), hr_interviews = exp (- 1 / 5),
               hr_interviews_lower = exp (- 1 / 4), hr_interviews_upper = exp (- 3 / 20) \<rparr>"
proof -
  let ?r = "\<lparr> hr_premium = exp (- 84 / 100), hr_premium_lower = exp (- 1),
               hr_premium_upper = exp (- 68 / 100), hr_interviews = exp (- 1 / 5),
               hr_interviews_lower = exp (- 1 / 4), hr_interviews_upper = exp (- 3 / 20) \<rparr>"
  have p: "params example_fit ''user_type_recruiter'' = Some (- 1 / 10)"
          "confidence_intervals example_fit ''user_type_recruiter'' = Some (- 3 / 10, 1 / 10)"
          "params example_fit ''avg_score'' = Some 0"
          "confidence_intervals example_fit ''avg_score'' = Some (- 1 / 100, 1 / 100)"
          "params example_fit ''user_type_job_seeker'' = Some (1 / 20)"
          "confidence_intervals example_fit ''user_type_job_seeker'' = Some (- 1 / 10, 1 / 5)"
          "params example_fit ''subscription_tier_premium'' = Some (- 84 / 100)"
          "confidence_intervals example_fit ''subscription_tier_premium'' = Some (- 1, - 68 / 100)"
          "params example_fit ''num_interviews'' = Some (- 1 / 5)"
          "confidence_intervals example_fit ''num_interviews'' = Some (- 1 / 4, - 3 / 20)"
    by (simp_all add: example_fit_def)
  from hazard_ratio_is_exp [of example_fit "''user_type_recruiter''" "- 1 / 10" "- 3 / 10" "1 / 10" ?r]
       hazard_ratio_is_exp [of example_fit "''avg_score''" 0 "- 1 / 100" "1 / 100" ?r]
       hazard_ratio_is_exp [of example_fit "''user_type_job_seeker''" "1 / 20" "- 1 / 10" "1 / 5" ?r]
       hazard_ratio_is_exp [of example_fit "''subscription_tier_premium''" "- 84 / 100" "- 1" "- 68 / 100" ?r]
       hazard_ratio_is_exp [of example_fit "''num_interviews''" "- 1 / 5" "- 1 / 4" "- 3 / 20" ?r]
       p example_fit_key_findings
  show ?thesis
    by auto
qed

text \<open>
  Claim C7, as stated, fails: a fit that returns with the warning that it did not
  converge is used as it is. The key findings are computed and no warning is shown.
\<close>

theorem unconverged_fit_counterexample:
  "\<not> converged (Returned example_model [ConvergenceWarning])
   \<and> regression_step (Returned example_model [ConvergenceWarning])
     = Inr (example_findings, [])"
  by (simp add: converged_def regression_step_def example_key_findings filterwarnings_ignore_def)

text \<open>
  Claim C7, amended. The regression step checks nothing itself. An exception raised by
  the fit ends the program with that exception. A fit that returns is used whatever it
  warned of: the step gives what it gives for the same model without warnings, and when
  it gives findings, they are the key findings of the returned model and no warning is
  shown.
\<close>

theorem regression_step_outcomes:
  "regression_step (Raised e) = Inl e
   \<and> regression_step (Returned cph ws) = regression_step (Returned cph [])
   \<and> (regression_step (Returned cph ws) = Inr (r, shown)
        \<longrightarrow> shown = [] \<and> key_findings cph = Inr r)"
  by (auto simp add: regression_step_def filterwarnings_ignore_def split: sum.splits)

theorem regression_step_outcomes_witness:
  "regression_step (Raised (ConvergenceError ''matrix inversion''))
     = Inl (ConvergenceError ''matrix inversion'')
   \<and> regression_step (Returned example_model [ConvergenceWarning])
       = regression_step (Returned example_model [])
   \<and> regression_step (Returned example_model [ConvergenceWarning])
       = Inr (example_findings, [])
   \<and> key_findings example_model = Inr example_findings"
proof -
  have run: "regression_step (Returned example_model [ConvergenceWarning])
      = Inr (example_findings, [])"
    by (simp add: regression_step_def example_key_findings filterwarnings_ignore_def)
  from regression_step_outcomes
         [of "ConvergenceError ''matrix inversion''" example_model "[ConvergenceWarning]"
             example_findings "[]"]
       run
  show ?thesis by simp
qed

end
